theory Spec2Isabelle
  imports Complex_Main "HOL-Library.Sublist" "HOL-Library.Log_Nat"
begin

section \<open>Python values, dictionaries and exceptions\<close>

text \<open>
  The harness \<^verbatim>\<open>server/simple-test.py\<close> builds its results as Python dictionaries with
  string keys. A dictionary is modelled as an association list in insertion order (the
  order \<^verbatim>\<open>json.dump\<close> writes), its values by the datatype \<open>pyval\<close>. A Python float
  is modelled by the real number it denotes; the arithmetic on floats rounds as the
  machine does (see the section on double-precision arithmetic).
\<close>

datatype pyval = PNone | PBool bool | PInt int | PFloat real | PStr string

type_synonym pydict = "(string \<times> pyval) list"

datatype exn_class =
  TimeoutExpired | UnboundLocalError | AttributeError | KeyError | TypeError
  | ValueError | ZeroDivisionError | JSONDecodeError | OtherError

text \<open>An exception: its class and the text that \<^verbatim>\<open>str(e)\<close> gives.\<close>

datatype exn = Exn exn_class string

fun exn_kind :: "exn \<Rightarrow> exn_class" where
  "exn_kind (Exn k m) = k"

fun str_exn :: "exn \<Rightarrow> string" where
  "str_exn (Exn k m) = m"

definition dquote :: char where
  "dquote = CHR 0x22"

definition squote :: char where
  "squote = CHR 0x27"

text \<open>\<^verbatim>\<open>d.get(k, default)\<close>\<close>

definition dict_get :: "pydict \<Rightarrow> string \<Rightarrow> pyval \<Rightarrow> pyval" where
  "dict_get d k dflt = (case map_of d k of None \<Rightarrow> dflt | Some v \<Rightarrow> v)"

text \<open>\<^verbatim>\<open>d[k]\<close>, which raises KeyError on a missing key.\<close>

definition dict_item :: "pydict \<Rightarrow> string \<Rightarrow> exn + pyval" where
  "dict_item d k =
     (case map_of d k of
        None \<Rightarrow> Inl (Exn KeyError ([squote] @ k @ [squote]))
      | Some v \<Rightarrow> Inr v)"

text \<open>Truth value of an object, as \<^verbatim>\<open>if x\<close> and a comprehension's filter test it.\<close>

fun truthy :: "pyval \<Rightarrow> bool" where
  "truthy PNone = False"
| "truthy (PBool b) = b"
| "truthy (PInt i) = (i \<noteq> 0)"
| "truthy (PFloat x) = (x \<noteq> 0)"
| "truthy (PStr s) = (s \<noteq> [])"

text \<open>
  Reading a local variable that an earlier branch may have left unassigned: \<open>None\<close> is
  the unassigned variable, and the read raises UnboundLocalError. The text of the
  exception is the one of CPython 3.11 and later; nothing below depends on its wording.
\<close>

definition unbound_msg :: "string \<Rightarrow> string" where
  "unbound_msg name =
     ''cannot access local variable '' @ [squote] @ name @ [squote]
       @ '' where it is not associated with a value''"

definition read_local :: "string \<Rightarrow> 'a option \<Rightarrow> exn + 'a" where
  "read_local name v =
     (case v of
        None \<Rightarrow> Inl (Exn UnboundLocalError (unbound_msg name))
      | Some x \<Rightarrow> Inr x)"

section \<open>Double-precision arithmetic\<close>

text \<open>
  A Python float is an IEEE 754 double: a multiple of \<^verbatim>\<open>2**-1074\<close> whose significand
  has at most 53 bits. Each arithmetic operation returns the exact result rounded to the
  nearest double, a tie going to the double with the even significand. \<open>ulp x\<close> is the
  spacing of the doubles at the magnitude of \<open>x\<close> (\<^verbatim>\<open>2**-1074\<close> in the subnormal range).
  The exponent is not bounded above: overflow to infinity, which needs magnitudes beyond
  \<^verbatim>\<open>1e308\<close>, is not modelled.
\<close>

definition min_exp :: nat where
  "min_exp = 1074"

definition ulp_exp :: "real \<Rightarrow> nat" where
  "ulp_exp x = nat (bitlen \<lfloor>\<bar>x\<bar> * 2 ^ min_exp\<rfloor> - 53)"

definition ulp :: "real \<Rightarrow> real" where
  "ulp x = 2 ^ ulp_exp x / 2 ^ min_exp"

definition round_half_even :: "real \<Rightarrow> int" where
  "round_half_even y =
     (let f = \<lfloor>y\<rfloor>
      in if y - of_int f < 1 / 2 then f
         else if 1 / 2 < y - of_int f then f + 1
         else if even f then f else f + 1)"

definition double_round :: "real \<Rightarrow> real" where
  "double_round x = of_int (round_half_even (x / ulp x)) * ulp x"

definition double_add :: "real \<Rightarrow> real \<Rightarrow> real" where
  "double_add a b = double_round (a + b)"

definition double_sub :: "real \<Rightarrow> real \<Rightarrow> real" where
  "double_sub a b = double_round (a - b)"

definition double_mul :: "real \<Rightarrow> real \<Rightarrow> real" where
  "double_mul a b = double_round (a * b)"

definition double_div :: "real \<Rightarrow> real \<Rightarrow> real" where
  "double_div a b = double_round (a / b)"

text \<open>
  \<^verbatim>\<open>sum(xs)\<close> on floats: the additions from left to right, starting from 0, each one
  rounded (CPython up to 3.11; from 3.12 on \<^verbatim>\<open>sum\<close> carries a correction term and
  can return another double; it returns the same one when no addition rounds, and in the
  runs evaluated below).
\<close>

definition py_sum :: "real list \<Rightarrow> real" where
  "py_sum ts = fold (\<lambda>t total. double_add total t) ts 0"

section \<open>String operations of the scenario runner\<close>

text \<open>
  \<^verbatim>\<open>s.count(sub)\<close>: the number of non-overlapping occurrences of \<open>sub\<close> in \<open>s\<close>, found
  from left to right; the scan resumes behind each occurrence.
\<close>

function str_count :: "string \<Rightarrow> string \<Rightarrow> nat" where
  "str_count s sub =
     (if sub = [] then length s + 1
      else if length s < length sub then 0
      else if prefix sub s then 1 + str_count (drop (length sub) s) sub
      else str_count (tl s) sub)"
  by pat_completeness auto
termination
proof (relation "measure (\<lambda>(s, sub). length s)")
  show "wf (measure (\<lambda>(s, sub). length s))" by simp
next
  fix s sub :: string
  assume "sub \<noteq> []" "\<not> length s < length sub"
  then show "((drop (length sub) s, sub), (s, sub)) \<in> measure (\<lambda>(s, sub). length s)"
    by (cases sub) auto
next
  fix s sub :: string
  assume "sub \<noteq> []" "\<not> length s < length sub"
  then show "((tl s, sub), (s, sub)) \<in> measure (\<lambda>(s, sub). length s)"
    by (cases s) auto
qed

declare str_count.simps [simp del]

text \<open>
  \<^verbatim>\<open>re.search(lit + '([^"]*)"', s)\<close> for a literal \<open>lit\<close>: the leftmost position at which
  \<open>lit\<close> is followed by a run of characters other than the double quote and then a
  double quote. \<open>match_here\<close> is the attempt at one position and returns group 1.
\<close>

definition match_here :: "string \<Rightarrow> string \<Rightarrow> string option" where
  "match_here lit s =
     (if prefix lit s then
        (let rest = drop (length lit) s
         in if dquote \<in> set rest then Some (takeWhile (\<lambda>c. c \<noteq> dquote) rest) else None)
      else None)"

fun re_search :: "string \<Rightarrow> string \<Rightarrow> string option" where
  "re_search lit [] = match_here lit []"
| "re_search lit (c # cs) =
     (case match_here lit (c # cs) of
        Some g \<Rightarrow> Some g
      | None \<Rightarrow> re_search lit cs)"

text \<open>\<^verbatim>\<open>s.lower()\<close> on the ASCII letters, and \<^verbatim>\<open>sub in s\<close>.\<close>

definition lower_char :: "char \<Rightarrow> char" where
  "lower_char c =
     (let n = (of_char c :: nat) in if 65 \<le> n \<and> n \<le> 90 then char_of (n + 32) else c)"

definition lower :: "string \<Rightarrow> string" where
  "lower s = map lower_char s"

fun str_contains :: "string \<Rightarrow> string \<Rightarrow> bool" where
  "str_contains sub [] = (sub = [])"
| "str_contains sub (c # cs) = (prefix sub (c # cs) \<or> str_contains sub cs)"

section \<open>The world outside the process\<close>

text \<open>
  \<^verbatim>\<open>subprocess.run\<close> either returns a completed process (exit status and captured
  standard output) or raises. What a command does, what the clock reads before and after
  it, and what \<^verbatim>\<open>json.loads\<close> makes of a text are parameters of the model. The clock
  readings are the floats \<^verbatim>\<open>time.time()\<close> returns.
\<close>

record completed =
  returncode :: int
  stdout :: string

datatype json =
  JNull | JBool bool | JInt int | JFloat real | JStr string | JArr "json list"
  | JObj "(string \<times> json) list"

record world =
  subprocess_run :: "string list \<Rightarrow> exn + completed"
  time_before :: "string list \<Rightarrow> real"
  time_after :: "string list \<Rightarrow> real"
  json_loads :: "string \<Rightarrow> exn + json"
  time_dump :: real

section \<open>Printed lines, reports and events\<close>

text \<open>One constructor for each \<^verbatim>\<open>print\<close> of the source, with the values it interpolates.\<close>

datatype line =
  L_testing string
  | L_rule char nat
  | L_response_time real
  | L_status bool
  | L_tts nat
  | L_fallback nat
  | L_gather_timeout string
  | L_speech_timeout string
  | L_error_indicators
  | L_timed_out
  | L_error string
  | L_banner
  | L_server_status json
  | L_database json
  | L_redis json
  | L_health_failed
  | L_cannot_connect string
  | L_summary_header
  | L_total nat
  | L_successful nat
  | L_avg real
  | L_min real
  | L_max real
  | L_saved
  | L_no_successful

record summary =
  total_tests :: nat
  successful_tests :: nat
  avg_response_time_ms :: real
  min_response_time_ms :: real
  max_response_time_ms :: real

record report =
  timestamp :: real
  summary :: summary
  detailed_results :: "pydict list"

text \<open>
  The effects of a run, in order: a printed line, a call of \<^verbatim>\<open>subprocess.run\<close> with its
  command and time budget in seconds, a sleep, and the write of a report to a file.
  Printing, opening the file and \<^verbatim>\<open>json.dump\<close> are taken to succeed; the report is kept
  as a value, not as the text \<^verbatim>\<open>json.dump\<close> makes of it.
\<close>

datatype event =
  Print line
  | Run "string list" nat
  | Sleep nat
  | Write string report

section \<open>The scenario runner\<close>

definition gather_cmd :: "string \<Rightarrow> string \<Rightarrow> string list" where
  "gather_cmd call_id speech_text =
     [''curl'', ''-s'', ''-X'', ''POST'',
      ''http://localhost:3000/twilio/gather'',
      ''-d'', ''CallSid='' @ call_id @ ''&SpeechResult='' @ speech_text @ ''&Confidence=0.9'',
      ''-H'', ''Content-Type: application/x-www-form-urlencoded'']"

text \<open>
  The dictionary of the \<^verbatim>\<open>return\<close> at the end of the \<^verbatim>\<open>try\<close> block. Its entries are
  evaluated in order; \<open>tts_count\<close>, \<open>fallback_count\<close>, \<open>gather_timeout\<close> and
  \<open>speech_timeout\<close> are locals assigned only under \<^verbatim>\<open>if result.stdout:\<close>. The two
  counts are read only when the output is non-empty; the two matches are read always.
\<close>

definition result_dict ::
  "string \<Rightarrow> real \<Rightarrow> completed \<Rightarrow> nat option \<Rightarrow> nat option
     \<Rightarrow> string option option \<Rightarrow> string option option \<Rightarrow> exn + pydict" where
  "result_dict scenario_name response_time result tts_count fallback_count
       gather_timeout speech_timeout =
     (case (if stdout result \<noteq> [] then read_local ''tts_count'' tts_count else Inr 0) of
        Inl e \<Rightarrow> Inl e
      | Inr tts \<Rightarrow>
     (case (if stdout result \<noteq> [] then read_local ''fallback_count'' fallback_count
            else Inr 0) of
        Inl e \<Rightarrow> Inl e
      | Inr fb \<Rightarrow>
     (case read_local ''gather_timeout'' gather_timeout of
        Inl e \<Rightarrow> Inl e
      | Inr g \<Rightarrow>
     (case read_local ''speech_timeout'' speech_timeout of
        Inl e \<Rightarrow> Inl e
      | Inr sp \<Rightarrow>
        Inr [(''scenario'', PStr scenario_name),
             (''response_time_ms'', PFloat response_time),
             (''success'', PBool (returncode result = 0)),
             (''tts_instances'', PInt (int tts)),
             (''fallback_instances'', PInt (int fb)),
             (''gather_timeout'', (case g of None \<Rightarrow> PNone | Some v \<Rightarrow> PStr v)),
             (''speech_timeout'', (case sp of None \<Rightarrow> PNone | Some v \<Rightarrow> PStr v))]))))"

text \<open>The two \<^verbatim>\<open>except\<close> clauses, tried in the source's order.\<close>

definition handle_exn :: "string \<Rightarrow> event list \<Rightarrow> exn \<Rightarrow> event list \<times> pydict" where
  "handle_exn scenario_name ev e =
     (if exn_kind e = TimeoutExpired then
        (ev @ [Print L_timed_out],
         [(''scenario'', PStr scenario_name), (''response_time_ms'', PInt 30000),
          (''success'', PBool False), (''timeout'', PBool True)])
      else
        (ev @ [Print (L_error (str_exn e))],
         [(''scenario'', PStr scenario_name), (''success'', PBool False),
          (''error'', PStr (str_exn e))]))"

definition test_scenario ::
  "world \<Rightarrow> string \<Rightarrow> string \<Rightarrow> string \<Rightarrow> event list \<times> pydict" where
  "test_scenario w scenario_name speech_text call_id =
     (let cmd = gather_cmd call_id speech_text;
          start_time = time_before w cmd;
          ev0 = [Print (L_testing scenario_name), Print (L_rule CHR ''-'' 40), Run cmd 30]
      in case subprocess_run w cmd of
           Inl e \<Rightarrow> handle_exn scenario_name ev0 e
         | Inr result \<Rightarrow>
             (let end_time = time_after w cmd;
                  response_time = double_mul (double_sub end_time start_time) 1000;
                  body = stdout result;
                  tts_count = (if body \<noteq> [] then Some (str_count body ''<Play>'') else None);
                  fallback_count =
                    (if body \<noteq> [] then Some (str_count body ''<Say>'') else None);
                  gather_timeout =
                    (if body \<noteq> [] then Some (re_search (''timeout='' @ [dquote]) body)
                     else None);
                  speech_timeout =
                    (if body \<noteq> [] then Some (re_search (''speechTimeout='' @ [dquote]) body)
                     else None);
                  ev1 = ev0 @ [Print (L_response_time response_time),
                               Print (L_status (returncode result = 0))]
                    @ (if body \<noteq> [] then
                         [Print (L_tts (str_count body ''<Play>'')),
                          Print (L_fallback (str_count body ''<Say>''))]
                         @ (case re_search (''timeout='' @ [dquote]) body of
                              None \<Rightarrow> [] | Some g \<Rightarrow> [Print (L_gather_timeout g)])
                         @ (case re_search (''speechTimeout='' @ [dquote]) body of
                              None \<Rightarrow> [] | Some g \<Rightarrow> [Print (L_speech_timeout g)])
                         @ (if str_contains ''error'' (lower body)
                            then [Print L_error_indicators] else [])
                       else [])
              in case result_dict scenario_name response_time result tts_count
                        fallback_count gather_timeout speech_timeout of
                   Inl e \<Rightarrow> handle_exn scenario_name ev1 e
                 | Inr d \<Rightarrow> (ev1, d)))"

section \<open>The driver\<close>

definition health_cmd :: "string list" where
  "health_cmd = [''curl'', ''-s'', ''http://localhost:3000/health'']"

fun type_name :: "json \<Rightarrow> string" where
  "type_name JNull = ''NoneType''"
| "type_name (JBool b) = ''bool''"
| "type_name (JInt i) = ''int''"
| "type_name (JFloat x) = ''float''"
| "type_name (JStr s) = ''str''"
| "type_name (JArr xs) = ''list''"
| "type_name (JObj kv) = ''dict''"

text \<open>\<^verbatim>\<open>x.get(k, default)\<close> on a parsed document: only a JSON object has the method.\<close>

fun json_get :: "json \<Rightarrow> string \<Rightarrow> json \<Rightarrow> exn + json" where
  "json_get (JObj kv) k dflt = Inr (case map_of kv k of None \<Rightarrow> dflt | Some v \<Rightarrow> v)"
| "json_get j k dflt =
     Inl (Exn AttributeError
            ([squote] @ type_name j @ [squote] @ '' object has no attribute ''
               @ [squote] @ ''get'' @ [squote]))"

text \<open>
  The body of the \<^verbatim>\<open>try\<close> block of the health check, after the call of
  \<^verbatim>\<open>subprocess.run\<close> has been issued: the lines it prints, and either the exception that
  leaves the block or whether the run goes on (\<open>False\<close> is the \<^verbatim>\<open>return\<close> of the
  \<^verbatim>\<open>else\<close> branch).
\<close>

definition health_check :: "world \<Rightarrow> event list \<times> (exn + bool)" where
  "health_check w =
     (case subprocess_run w health_cmd of
        Inl e \<Rightarrow> ([], Inl e)
      | Inr health_result \<Rightarrow>
          if returncode health_result = 0 then
            (case json_loads w (stdout health_result) of
               Inl e \<Rightarrow> ([], Inl e)
             | Inr health_data \<Rightarrow>
            (case json_get health_data ''status'' (JStr ''unknown'') of
               Inl e \<Rightarrow> ([], Inl e)
             | Inr st \<Rightarrow>
            (case json_get health_data ''services'' (JObj []) of
               Inl e \<Rightarrow> ([Print (L_server_status st)], Inl e)
             | Inr sv \<Rightarrow>
            (case json_get sv ''database'' (JStr ''unknown'') of
               Inl e \<Rightarrow> ([Print (L_server_status st)], Inl e)
             | Inr db \<Rightarrow>
            (case json_get health_data ''services'' (JObj []) of
               Inl e \<Rightarrow> ([Print (L_server_status st), Print (L_database db)], Inl e)
             | Inr sv' \<Rightarrow>
            (case json_get sv' ''redis'' (JStr ''unknown'') of
               Inl e \<Rightarrow> ([Print (L_server_status st), Print (L_database db)], Inl e)
             | Inr rd \<Rightarrow>
                 ([Print (L_server_status st), Print (L_database db), Print (L_redis rd)],
                  Inr True)))))))
          else ([Print L_health_failed], Inr False))"

definition scenarios :: "(string \<times> string \<times> string) list" where
  "scenarios =
     [(''Termite Emergency'', ''Hi I have a termite emergency in Mosman'', ''baseline-test-1''),
      (''Service Inquiry'', ''Do you service Cremorne what services do you offer'',
       ''baseline-test-2''),
      (''Booking Request'',
       ''My name is John and I need to book a pest control treatment for Friday'',
       ''baseline-test-3''),
      (''Business Hours'', ''What are your business hours'', ''baseline-test-4'')]"

text \<open>The loop over the scenarios: one call of the runner and a sleep of one second each.\<close>

fun run_scenarios ::
  "world \<Rightarrow> (string \<times> string \<times> string) list \<Rightarrow> event list \<times> pydict list" where
  "run_scenarios w [] = ([], [])"
| "run_scenarios w ((scenario_name, speech_text, call_id) # rest) =
     (let (ev, result) = test_scenario w scenario_name speech_text call_id;
          (evs, baseline_results) = run_scenarios w rest
      in (ev @ [Sleep 1] @ evs, result # baseline_results))"

text \<open>\<^verbatim>\<open>[r for r in baseline_results if r.get('success', False)]\<close>\<close>

definition successful :: "pydict list \<Rightarrow> pydict list" where
  "successful baseline_results =
     filter (\<lambda>r. truthy (dict_get r ''success'' (PBool False))) baseline_results"

text \<open>
  The number that arithmetic and comparison see in a value; \<^verbatim>\<open>None\<close> and a string
  raise TypeError there.
\<close>

fun num_value :: "pyval \<Rightarrow> exn + real" where
  "num_value (PFloat x) = Inr x"
| "num_value (PInt i) = Inr (real_of_int i)"
| "num_value (PBool b) = Inr (if b then 1 else 0)"
| "num_value PNone = Inl (Exn TypeError ''unsupported operand type(s)'')"
| "num_value (PStr s) = Inl (Exn TypeError ''unsupported operand type(s)'')"

text \<open>The generator \<^verbatim>\<open>r['response_time_ms'] for r in successful_tests\<close>, run to its end.\<close>

fun response_times :: "pydict list \<Rightarrow> exn + real list" where
  "response_times [] = Inr []"
| "response_times (r # rs) =
     (case dict_item r ''response_time_ms'' of
        Inl e \<Rightarrow> Inl e
      | Inr v \<Rightarrow>
     (case num_value v of
        Inl e \<Rightarrow> Inl e
      | Inr t \<Rightarrow>
     (case response_times rs of
        Inl e \<Rightarrow> Inl e
      | Inr ts \<Rightarrow> Inr (t # ts))))"

definition py_div :: "real \<Rightarrow> nat \<Rightarrow> exn + real" where
  "py_div a n = (if n = 0 then Inl (Exn ZeroDivisionError ''division by zero'')
                 else Inr (double_div a (real n)))"

fun py_min :: "real list \<Rightarrow> exn + real" where
  "py_min [] = Inl (Exn ValueError ''min() iterable argument is empty'')"
| "py_min (x # xs) = Inr (fold (\<lambda>y m. if y < m then y else m) xs x)"

fun py_max :: "real list \<Rightarrow> exn + real" where
  "py_max [] = Inl (Exn ValueError ''max() iterable argument is empty'')"
| "py_max (x # xs) = Inr (fold (\<lambda>y m. if y > m then y else m) xs x)"

text \<open>
  Average, minimum and maximum of the response times, in the source's order; \<open>passed\<close>
  is the source's list \<^verbatim>\<open>successful_tests\<close>.
\<close>

definition stats :: "pydict list \<Rightarrow> exn + real \<times> real \<times> real" where
  "stats passed =
     (case response_times passed of
        Inl e \<Rightarrow> Inl e
      | Inr ts \<Rightarrow>
     (case py_div (py_sum ts) (length passed) of
        Inl e \<Rightarrow> Inl e
      | Inr avg_response_time \<Rightarrow>
     (case py_min ts of
        Inl e \<Rightarrow> Inl e
      | Inr min_response_time \<Rightarrow>
     (case py_max ts of
        Inl e \<Rightarrow> Inl e
      | Inr max_response_time \<Rightarrow>
          Inr (avg_response_time, min_response_time, max_response_time)))))"

text \<open>
  A run of \<^verbatim>\<open>main\<close>: its events, and either the exception that leaves it uncaught or
  the value it returns (\<open>None\<close> for the bare \<^verbatim>\<open>return\<close> after a failed health check,
  the list of results otherwise).
\<close>

definition main :: "world \<Rightarrow> event list \<times> (exn + pydict list option)" where
  "main w =
     (let ev0 = [Print L_banner, Print (L_rule CHR ''='' 50), Run health_cmd 10]
      in case health_check w of
           (ev1, Inl e) \<Rightarrow> (ev0 @ ev1 @ [Print (L_cannot_connect (str_exn e))], Inr None)
         | (ev1, Inr False) \<Rightarrow> (ev0 @ ev1, Inr None)
         | (ev1, Inr True) \<Rightarrow>
             (let (ev2, baseline_results) = run_scenarios w scenarios;
                  passed = successful baseline_results;
                  ev = ev0 @ ev1 @ ev2
              in if passed \<noteq> [] then
                   (case stats passed of
                      Inl e \<Rightarrow> (ev, Inl e)
                    | Inr (avg_response_time, min_response_time, max_response_time) \<Rightarrow>
                        (ev @ [Print L_summary_header, Print (L_rule CHR ''='' 30),
                               Print (L_total (length baseline_results)),
                               Print (L_successful (length passed)),
                               Print (L_avg avg_response_time),
                               Print (L_min min_response_time),
                               Print (L_max max_response_time),
                               Write ''baseline-results.json''
                                 \<lparr>timestamp = time_dump w,
                                  summary =
                                    \<lparr>total_tests = length baseline_results,
                                     successful_tests = length passed,
                                     avg_response_time_ms = avg_response_time,
                                     min_response_time_ms = min_response_time,
                                     max_response_time_ms = max_response_time\<rparr>,
                                  detailed_results = baseline_results\<rparr>,
                               Print L_saved],
                         Inr (Some baseline_results)))
                 else (ev @ [Print L_no_successful], Inr (Some baseline_results))))"

section \<open>Notions of the specification\<close>

text \<open>
  The number of occurrences of \<open>sub\<close> in \<open>s\<close>: the number of positions of \<open>s\<close> at
  which \<open>sub\<close> starts.
\<close>

fun occurrences :: "string \<Rightarrow> string \<Rightarrow> nat" where
  "occurrences sub [] = (if sub = [] then 1 else 0)"
| "occurrences sub (c # cs) = (if prefix sub (c # cs) then 1 else 0) + occurrences sub cs"

text \<open>
  A text has an attribute \<open>lit\<close>\<^verbatim>\<open>...\<close>\<open>"\<close> when, at some position, \<open>lit\<close> (the
  attribute's name, the equals sign and the opening quote) is followed later by a
  closing double quote.
\<close>

fun has_attribute :: "string \<Rightarrow> string \<Rightarrow> bool" where
  "has_attribute lit [] = False"
| "has_attribute lit (c # cs) =
     ((prefix lit (c # cs) \<and> dquote \<in> set (drop (length lit) (c # cs)))
      \<or> has_attribute lit cs)"

text \<open>
  The response times of the results whose \<open>success\<close> flag is true, in the order of the
  results.
\<close>

fun success_times :: "pydict list \<Rightarrow> real list" where
  "success_times [] = []"
| "success_times (r # rs) =
     (case (map_of r ''success'', map_of r ''response_time_ms'') of
        (Some (PBool True), Some (PFloat t)) \<Rightarrow> t # success_times rs
      | _ \<Rightarrow> success_times rs)"

section \<open>Example worlds\<close>

text \<open>
  A parser that accepts the empty object and rejects every other text with the message of
  \<^verbatim>\<open>json.loads\<close> for a text that does not start a JSON value.
\<close>

definition loads_example :: "string \<Rightarrow> exn + json" where
  "loads_example s =
     (if s = ''{}'' then Inr (JObj [])
      else Inl (Exn JSONDecodeError ''Expecting value: line 1 column 1 (char 0)''))"

text \<open>The service is healthy, and every request to it runs into the 30-second budget.\<close>

definition world_timeouts :: world where
  "world_timeouts =
     \<lparr>subprocess_run =
        (\<lambda>cmd. if cmd = health_cmd then Inr \<lparr>returncode = 0, stdout = ''{}''\<rparr>
               else Inl (Exn TimeoutExpired ''timed out after 30 seconds'')),
      time_before = (\<lambda>cmd. 5),
      time_after = (\<lambda>cmd. 47),
      json_loads = loads_example,
      time_dump = 60\<rparr>"

text \<open>
  The service is healthy and answers the four requests after 100, 200, 300 and 400
  milliseconds, each time with two \<^verbatim>\<open><Play>\<close> tags and one \<^verbatim>\<open><Say>\<close> tag. The clock
  reads 0 before each request and the double nearest to 0.1, 0.2, 0.3 and 0.4 after it.
\<close>

definition clock_100ms :: real where
  "clock_100ms = 7205759403792794 / 2 ^ 56"

definition clock_200ms :: real where
  "clock_200ms = 7205759403792794 / 2 ^ 55"

definition clock_300ms :: real where
  "clock_300ms = 5404319552844595 / 2 ^ 54"

definition clock_400ms :: real where
  "clock_400ms = 7205759403792794 / 2 ^ 54"

definition body_example :: string where
  "body_example = ''<Response><Play>a</Play><Play>b</Play><Say>c</Say></Response>''"

definition world_ok :: world where
  "world_ok =
     \<lparr>subprocess_run =
        (\<lambda>cmd. if cmd = health_cmd then Inr \<lparr>returncode = 0, stdout = ''{}''\<rparr>
               else Inr \<lparr>returncode = 0, stdout = body_example\<rparr>),
      time_before = (\<lambda>cmd. 0),
      time_after =
        (\<lambda>cmd. if cmd = gather_cmd ''baseline-test-1''
                            ''Hi I have a termite emergency in Mosman''
                    then clock_100ms
               else if cmd = gather_cmd ''baseline-test-2''
                            ''Do you service Cremorne what services do you offer''
                    then clock_200ms
               else if cmd = gather_cmd ''baseline-test-3''
                            ''My name is John and I need to book a pest control treatment for Friday''
                    then clock_300ms
               else clock_400ms),
      json_loads = loads_example,
      time_dump = 60\<rparr>"

definition result_example :: "string \<Rightarrow> real \<Rightarrow> pydict" where
  "result_example scenario_name response_time =
     [(''scenario'', PStr scenario_name), (''response_time_ms'', PFloat response_time),
      (''success'', PBool True), (''tts_instances'', PInt 2), (''fallback_instances'', PInt 1),
      (''gather_timeout'', PNone), (''speech_timeout'', PNone)]"

definition report_example :: report where
  "report_example =
     \<lparr>timestamp = 60,
      summary =
        \<lparr>total_tests = 4, successful_tests = 4, avg_response_time_ms = 250,
         min_response_time_ms = 100, max_response_time_ms = 400\<rparr>,
      detailed_results =
        [result_example ''Termite Emergency'' 100, result_example ''Service Inquiry'' 200,
         result_example ''Booking Request'' 300, result_example ''Business Hours'' 400]\<rparr>"

text \<open>The health check exits with status zero and a body that is not JSON.\<close>

definition world_bad_json :: world where
  "world_bad_json =
     \<lparr>subprocess_run =
        (\<lambda>cmd. if cmd = health_cmd then Inr \<lparr>returncode = 0, stdout = ''<html>''\<rparr>
               else Inr \<lparr>returncode = 0, stdout = body_example\<rparr>),
      time_before = (\<lambda>cmd. 0),
      time_after = (\<lambda>cmd. 1 / 8),
      json_loads = loads_example,
      time_dump = 60\<rparr>"

text \<open>
  Nothing listens on the port: every \<^verbatim>\<open>curl\<close> exits with status 7 and no output.
\<close>

definition world_down :: world where
  "world_down =
     \<lparr>subprocess_run = (\<lambda>cmd. Inr \<lparr>returncode = 7, stdout = []\<rparr>),
      time_before = (\<lambda>cmd. 0),
      time_after = (\<lambda>cmd. 1 / 64),
      json_loads = loads_example,
      time_dump = 60\<rparr>"

text \<open>
  The service is healthy and answers every request with status 200 and an empty body:
  \<^verbatim>\<open>curl\<close> exits with status zero and prints nothing.
\<close>

definition world_empty :: world where
  "world_empty =
     \<lparr>subprocess_run =
        (\<lambda>cmd. if cmd = health_cmd then Inr \<lparr>returncode = 0, stdout = ''{}''\<rparr>
               else Inr \<lparr>returncode = 0, stdout = []\<rparr>),
      time_before = (\<lambda>cmd. 0),
      time_after = (\<lambda>cmd. 1 / 8),
      json_loads = loads_example,
      time_dump = 60\<rparr>"







section \<open>An invariant of the runner's results\<close>

text \<open>
  A result carries a Boolean \<open>success\<close> flag, and a float \<open>response_time_ms\<close> when the
  flag is true.
\<close>

definition result_ok :: "pydict \<Rightarrow> bool" where
  "result_ok r \<longleftrightarrow>
     (\<exists>b. map_of r ''success'' = Some (PBool b)) \<and>
     (map_of r ''success'' = Some (PBool True) \<longrightarrow>
        (\<exists>t. map_of r ''response_time_ms'' = Some (PFloat t)))"


section \<open>Auxiliary facts\<close>

lemma round_half_even_of_int [simp]: "round_half_even (of_int m) = m"
  by (simp add: round_half_even_def)

lemma round_half_even_0 [simp]: "round_half_even 0 = 0"
  using round_half_even_of_int [of 0] by simp

lemma round_half_even_numeral [simp]: "round_half_even (numeral n) = numeral n"
  using round_half_even_of_int [of "numeral n"] by simp

lemma round_half_even_neg_numeral [simp]: "round_half_even (- numeral n) = - numeral n"
  using round_half_even_of_int [of "- numeral n"] by simp



lemma ulp_exp_le_iff: "ulp_exp x \<le> k \<longleftrightarrow> \<bar>x\<bar> * 2 ^ min_exp < 2 ^ (53 + k)"
proof -
  have "ulp_exp x \<le> k \<longleftrightarrow> bitlen \<lfloor>\<bar>x\<bar> * 2 ^ min_exp\<rfloor> \<le> 53 + int k"
    by (auto simp: ulp_exp_def)
  also have "\<dots> \<longleftrightarrow> \<lfloor>\<bar>x\<bar> * 2 ^ min_exp\<rfloor> < 2 ^ (53 + k)"
    by (simp add: bitlen_le_iff_power nat_add_distrib)
  also have "\<dots> \<longleftrightarrow> \<bar>x\<bar> * 2 ^ min_exp < 2 ^ (53 + k)"
    by (metis floor_less_iff of_int_numeral of_int_power)
  finally show ?thesis .
qed

lemma ulp_exp_eqI:
  assumes "\<bar>x\<bar> * 2 ^ min_exp < 2 ^ (53 + k)"
    and "k = 0 \<or> 2 ^ (52 + k) \<le> \<bar>x\<bar> * 2 ^ min_exp"
  shows "ulp_exp x = k"
proof (rule antisym)
  show "ulp_exp x \<le> k" using assms(1) by (simp add: ulp_exp_le_iff)
  show "k \<le> ulp_exp x"
  proof (cases k)
    case 0
    then show ?thesis by simp
  next
    case (Suc j)
    with assms(2) have "\<not> \<bar>x\<bar> * 2 ^ min_exp < 2 ^ (53 + j)" by simp
    then have "\<not> ulp_exp x \<le> j" by (simp add: ulp_exp_le_iff)
    with Suc show ?thesis by simp
  qed
qed

lemma double_round_normal:
  assumes "b \<le> min_exp" and "2 ^ 52 \<le> \<bar>x\<bar> * 2 ^ b" and "\<bar>x\<bar> * 2 ^ b < 2 ^ 53"
  shows "double_round x = of_int (round_half_even (x * 2 ^ b)) / 2 ^ b"
proof -
  have split: "(2::real) ^ min_exp = 2 ^ b * 2 ^ (min_exp - b)"
    using assms(1) by (simp flip: power_add)
  have "ulp_exp x = min_exp - b"
  proof (rule ulp_exp_eqI)
    have "\<bar>x\<bar> * 2 ^ min_exp = (\<bar>x\<bar> * 2 ^ b) * 2 ^ (min_exp - b)"
      by (simp add: split)
    also have "\<dots> < 2 ^ 53 * 2 ^ (min_exp - b)"
      using assms(3) by simp
    finally show "\<bar>x\<bar> * 2 ^ min_exp < 2 ^ (53 + (min_exp - b))"
      by (simp add: power_add)
    have "(2::real) ^ (52 + (min_exp - b)) = 2 ^ 52 * 2 ^ (min_exp - b)"
      by (simp add: power_add)
    also have "\<dots> \<le> (\<bar>x\<bar> * 2 ^ b) * 2 ^ (min_exp - b)"
      using assms(2) by simp
    also have "\<dots> = \<bar>x\<bar> * 2 ^ min_exp"
      by (simp add: split)
    finally show "min_exp - b = 0 \<or> 2 ^ (52 + (min_exp - b)) \<le> \<bar>x\<bar> * 2 ^ min_exp"
      by simp
  qed
  then have "ulp x = 1 / 2 ^ b"
    by (simp add: ulp_def split)
  then show ?thesis by (simp add: double_round_def)
qed

lemma double_round_0 [simp]: "double_round 0 = 0"
  using round_half_even_of_int [of 0] by (simp add: double_round_def)

lemma ulp_pos: "0 < ulp x"
  by (simp add: ulp_def)

lemma ulp_minus [simp]: "ulp (- x) = ulp x"
  by (simp add: ulp_def ulp_exp_def)




lemma double_round_representable:
  assumes "\<bar>m\<bar> \<le> 2 ^ 53"
  shows "double_round (of_int m * 2 ^ j / 2 ^ min_exp) = of_int m * 2 ^ j / 2 ^ min_exp"
proof -
  let ?y = "of_int m * 2 ^ j / 2 ^ min_exp :: real"
  have abs_y: "\<bar>?y\<bar> * 2 ^ min_exp = real_of_int \<bar>m\<bar> * 2 ^ j"
    by (simp add: abs_mult)
  have "\<exists>n. ?y / ulp ?y = of_int n"
  proof (cases "ulp_exp ?y \<le> j")
    case True
    then have "(2::real) ^ (j - ulp_exp ?y) = 2 ^ j / 2 ^ ulp_exp ?y"
      by (simp add: power_diff)
    then have "?y / ulp ?y = of_int (m * 2 ^ (j - ulp_exp ?y))"
      by (simp add: ulp_def)
    then show ?thesis ..
  next
    case False
    then have "\<not> \<bar>?y\<bar> * 2 ^ min_exp < 2 ^ (53 + j)"
      by (simp add: ulp_exp_le_iff)
    then have "(2::real) ^ 53 * 2 ^ j \<le> real_of_int \<bar>m\<bar> * 2 ^ j"
      unfolding abs_y by (simp only: power_add not_less)
    then have "real_of_int (2 ^ 53) \<le> real_of_int \<bar>m\<bar>" by simp
    then have "2 ^ 53 \<le> \<bar>m\<bar>"
      by (simp only: of_int_le_iff)
    with assms have m: "\<bar>m\<bar> = 2 ^ 53" by simp
    have "\<bar>?y\<bar> * 2 ^ min_exp < 2 ^ (53 + Suc j)"
      unfolding abs_y m by (simp add: power_add)
    then have "ulp_exp ?y \<le> Suc j" by (simp add: ulp_exp_le_iff)
    with False have k: "ulp_exp ?y = Suc j" by simp
    have half: "?y / ulp ?y = of_int m / 2"
      unfolding ulp_def k by simp
    from m consider "m = 2 ^ 53" | "m = - (2 ^ 53)" by (auto simp: abs_if split: if_splits)
    then show ?thesis
    proof cases
      case 1
      then have "?y / ulp ?y = of_int (2 ^ 52)" unfolding half by simp
      then show ?thesis ..
    next
      case 2
      then have "?y / ulp ?y = of_int (- (2 ^ 52))" unfolding half by simp
      then show ?thesis ..
    qed
  qed
  then obtain n where n: "?y / ulp ?y = of_int n" ..
  then have "double_round ?y = (?y / ulp ?y) * ulp ?y"
    unfolding double_round_def by (simp only: round_half_even_of_int)
  also have "\<dots> = ?y" using ulp_pos [of ?y] by simp
  finally show ?thesis .
qed







lemma double_round_of_int:
  assumes "\<bar>m\<bar> \<le> 2 ^ 53"
  shows "double_round (of_int m) = of_int m"
  using double_round_representable [OF assms, of min_exp] by simp

lemma double_round_numeral:
  "numeral n \<le> (2 ^ 53 :: int) \<Longrightarrow> double_round (numeral n) = numeral n"
  using double_round_of_int [of "numeral n"] by simp

lemma latency_100ms: "double_mul (double_sub clock_100ms 0) 1000 = 100"
proof -
  have "double_round clock_100ms = clock_100ms"
    unfolding clock_100ms_def
    by (subst double_round_normal [where b = 56]) (simp_all add: min_exp_def)
  moreover have "double_round (clock_100ms * 1000) = 100"
    unfolding clock_100ms_def
    by (subst double_round_normal [where b = 46])
       (simp_all add: min_exp_def round_half_even_def)
  ultimately show ?thesis by (simp add: double_mul_def double_sub_def)
qed

lemma latency_200ms: "double_mul (double_sub clock_200ms 0) 1000 = 200"
proof -
  have "double_round clock_200ms = clock_200ms"
    unfolding clock_200ms_def
    by (subst double_round_normal [where b = 55]) (simp_all add: min_exp_def)
  moreover have "double_round (clock_200ms * 1000) = 200"
    unfolding clock_200ms_def
    by (subst double_round_normal [where b = 45])
       (simp_all add: min_exp_def round_half_even_def)
  ultimately show ?thesis by (simp add: double_mul_def double_sub_def)
qed

lemma latency_300ms: "double_mul (double_sub clock_300ms 0) 1000 = 300"
proof -
  have "double_round clock_300ms = clock_300ms"
    unfolding clock_300ms_def
    by (subst double_round_normal [where b = 54]) (simp_all add: min_exp_def)
  moreover have "double_round (clock_300ms * 1000) = 300"
    unfolding clock_300ms_def
    by (subst double_round_normal [where b = 44])
       (simp_all add: min_exp_def round_half_even_def)
  ultimately show ?thesis by (simp add: double_mul_def double_sub_def)
qed

lemma latency_400ms: "double_mul (double_sub clock_400ms 0) 1000 = 400"
proof -
  have "double_round clock_400ms = clock_400ms"
    unfolding clock_400ms_def
    by (subst double_round_normal [where b = 54]) (simp_all add: min_exp_def)
  moreover have "double_round (clock_400ms * 1000) = 400"
    unfolding clock_400ms_def
    by (subst double_round_normal [where b = 44])
       (simp_all add: min_exp_def round_half_even_def)
  ultimately show ?thesis by (simp add: double_mul_def double_sub_def)
qed




lemma average_example: "double_div (py_sum [100, 200, 300, 400]) 4 = 250"
  by (simp add: py_sum_def double_add_def double_div_def double_round_numeral)


lemma test_scenario_raised:
  assumes "subprocess_run w (gather_cmd c s) = Inl e"
  shows "test_scenario w n s c =
           handle_exn n [Print (L_testing n), Print (L_rule CHR ''-'' 40),
                         Run (gather_cmd c s) 30] e"
  using assms by (simp add: test_scenario_def)

lemma result_dict_empty:
  "stdout r = [] \<Longrightarrow>
   result_dict n t r None None None None =
     Inl (Exn UnboundLocalError (unbound_msg ''gather_timeout''))"
  by (simp add: result_dict_def read_local_def)

lemma result_dict_nonempty:
  "stdout r \<noteq> [] \<Longrightarrow>
   result_dict n t r (Some a) (Some b) (Some g) (Some sp) =
     Inr [(''scenario'', PStr n), (''response_time_ms'', PFloat t),
          (''success'', PBool (returncode r = 0)),
          (''tts_instances'', PInt (int a)), (''fallback_instances'', PInt (int b)),
          (''gather_timeout'', (case g of None \<Rightarrow> PNone | Some v \<Rightarrow> PStr v)),
          (''speech_timeout'', (case sp of None \<Rightarrow> PNone | Some v \<Rightarrow> PStr v))]"
  by (simp add: result_dict_def read_local_def)

lemma test_scenario_empty:
  assumes "subprocess_run w (gather_cmd c s) = Inr r" and "stdout r = []"
  shows "snd (test_scenario w n s c) =
           [(''scenario'', PStr n), (''success'', PBool False),
            (''error'', PStr (unbound_msg ''gather_timeout''))]"
  using assms
  by (simp add: test_scenario_def Let_def result_dict_empty handle_exn_def)

lemma test_scenario_nonempty:
  assumes "subprocess_run w (gather_cmd c s) = Inr r" and "stdout r \<noteq> []"
  shows "snd (test_scenario w n s c) =
           [(''scenario'', PStr n),
            (''response_time_ms'',
               PFloat (double_mul
                         (double_sub (time_after w (gather_cmd c s))
                            (time_before w (gather_cmd c s))) 1000)),
            (''success'', PBool (returncode r = 0)),
            (''tts_instances'', PInt (int (str_count (stdout r) ''<Play>''))),
            (''fallback_instances'', PInt (int (str_count (stdout r) ''<Say>''))),
            (''gather_timeout'',
               (case re_search (''timeout='' @ [dquote]) (stdout r) of
                  None \<Rightarrow> PNone | Some v \<Rightarrow> PStr v)),
            (''speech_timeout'',
               (case re_search (''speechTimeout='' @ [dquote]) (stdout r) of
                  None \<Rightarrow> PNone | Some v \<Rightarrow> PStr v))]"
  using assms
  by (simp add: test_scenario_def Let_def result_dict_nonempty)

lemma occurrences_short: "length s < length sub \<Longrightarrow> occurrences sub s = 0"
proof (induction s)
  case Nil
  then show ?case by auto
next
  case (Cons a s)
  have "\<not> prefix sub (a # s)"
    using Cons.prems prefix_length_le by fastforce
  with Cons show ?case by simp
qed

lemma occurrences_skip:
  assumes "sub \<noteq> []" and "hd sub \<notin> set x"
  shows "occurrences sub (x @ r) = occurrences sub r"
  using assms(2)
proof (induction x)
  case Nil
  then show ?case by simp
next
  case (Cons a x)
  have "\<not> prefix sub (a # x @ r)"
    using assms(1) Cons.prems by (cases sub) auto
  with Cons show ?case by simp
qed

lemma occurrences_at_match:
  assumes "sub \<noteq> []" and "hd sub \<notin> set (tl sub)"
  shows "occurrences sub (sub @ r) = 1 + occurrences sub r"
proof -
  obtain h t where sub: "sub = h # t" using assms(1) by (cases sub) auto
  have "occurrences sub (sub @ r) = 1 + occurrences sub (t @ r)"
    by (simp add: sub)
  also have "occurrences sub (t @ r) = occurrences sub r"
    using assms occurrences_skip [of sub t r] by (simp add: sub)
  finally show ?thesis .
qed

lemma str_count_occurrences:
  assumes "sub \<noteq> []" and "hd sub \<notin> set (tl sub)"
  shows "str_count s sub = occurrences sub s"
  using assms
proof (induction s sub rule: str_count.induct)
  case (1 s sub)
  show ?case
  proof (cases "length s < length sub")
    case True
    then show ?thesis
      using "1.prems" by (subst str_count.simps) (simp add: occurrences_short)
  next
    case long: False
    show ?thesis
    proof (cases "prefix sub s")
      case True
      then obtain r where s: "s = sub @ r" by (auto simp: prefix_def)
      have "str_count s sub = 1 + str_count (drop (length sub) s) sub"
        using "1.prems" long True by (subst str_count.simps) simp
      also have "str_count (drop (length sub) s) sub = occurrences sub r"
        using "1.IH"(1) [OF "1.prems"(1) long True "1.prems"] by (simp add: s)
      finally show ?thesis
        using occurrences_at_match [OF "1.prems", of r] by (simp add: s)
    next
      case False
      from long "1.prems"(1) obtain a cs where s: "s = a # cs"
        by (cases s) auto
      have "str_count s sub = str_count (tl s) sub"
        using "1.prems" long False by (subst str_count.simps) simp
      also have "\<dots> = occurrences sub cs"
        using "1.IH"(2) [OF "1.prems"(1) long False "1.prems"] by (simp add: s)
      finally show ?thesis using False by (simp add: s)
    qed
  qed
qed


lemma handle_exn_snd:
  "snd (handle_exn n ev e) =
     (if exn_kind e = TimeoutExpired then
        [(''scenario'', PStr n), (''response_time_ms'', PInt 30000),
         (''success'', PBool False), (''timeout'', PBool True)]
      else [(''scenario'', PStr n), (''success'', PBool False), (''error'', PStr (str_exn e))])"
  by (simp add: handle_exn_def)

lemma test_scenario_cases:
  obtains (raised) e where "subprocess_run w (gather_cmd c s) = Inl e"
      "snd (test_scenario w n s c) =
         (if exn_kind e = TimeoutExpired then
            [(''scenario'', PStr n), (''response_time_ms'', PInt 30000),
             (''success'', PBool False), (''timeout'', PBool True)]
          else [(''scenario'', PStr n), (''success'', PBool False),
                (''error'', PStr (str_exn e))])"
  | (empty) r where "subprocess_run w (gather_cmd c s) = Inr r" "stdout r = []"
      "snd (test_scenario w n s c) =
         [(''scenario'', PStr n), (''success'', PBool False),
          (''error'', PStr (unbound_msg ''gather_timeout''))]"
  | (full) r where "subprocess_run w (gather_cmd c s) = Inr r" "stdout r \<noteq> []"
      "snd (test_scenario w n s c) =
           [(''scenario'', PStr n),
            (''response_time_ms'',
               PFloat (double_mul
                         (double_sub (time_after w (gather_cmd c s))
                            (time_before w (gather_cmd c s))) 1000)),
            (''success'', PBool (returncode r = 0)),
            (''tts_instances'', PInt (int (str_count (stdout r) ''<Play>''))),
            (''fallback_instances'', PInt (int (str_count (stdout r) ''<Say>''))),
            (''gather_timeout'',
               (case re_search (''timeout='' @ [dquote]) (stdout r) of
                  None \<Rightarrow> PNone | Some v \<Rightarrow> PStr v)),
            (''speech_timeout'',
               (case re_search (''speechTimeout='' @ [dquote]) (stdout r) of
                  None \<Rightarrow> PNone | Some v \<Rightarrow> PStr v))]"
proof (cases "subprocess_run w (gather_cmd c s)")
  case (Inl e)
  then show ?thesis
    using raised [of e] by (simp add: test_scenario_raised handle_exn_snd)
next
  case (Inr r)
  show ?thesis
  proof (cases "stdout r = []")
    case True
    then show ?thesis using empty [OF Inr True] test_scenario_empty [OF Inr True] by simp
  next
    case False
    then show ?thesis using full [OF Inr False] test_scenario_nonempty [OF Inr False] by simp
  qed
qed

lemma test_scenario_inv: "result_ok (snd (test_scenario w n s c))"
  by (cases rule: test_scenario_cases [of w c s n]) (auto simp: result_ok_def)


lemma test_scenario_no_write: "Write f rep \<notin> set (fst (test_scenario w n s c))"
  by (auto simp: test_scenario_def Let_def handle_exn_def
           split: sum.splits option.splits if_splits)

lemma run_scenarios_snd:
  "snd (run_scenarios w ss) = map (\<lambda>(n, s, c). snd (test_scenario w n s c)) ss"
proof (induction ss)
  case Nil
  then show ?case by simp
next
  case (Cons x ss)
  obtain n s c where "x = (n, s, c)" by (cases x) auto
  with Cons show ?case by (simp add: split_def Let_def)
qed

lemma run_scenarios_no_write: "Write f rep \<notin> set (fst (run_scenarios w ss))"
proof (induction ss)
  case Nil
  then show ?case by simp
next
  case (Cons x ss)
  obtain n s c where "x = (n, s, c)" by (cases x) auto
  with Cons show ?case by (simp add: split_def Let_def test_scenario_no_write)
qed

lemma run_scenarios_inv: "r \<in> set (snd (run_scenarios w ss)) \<Longrightarrow> result_ok r"
  by (auto simp: run_scenarios_snd test_scenario_inv)


lemma successful_filter:
  assumes "\<forall>r\<in>set rs. result_ok r"
  shows "successful rs = filter (\<lambda>r. map_of r ''success'' = Some (PBool True)) rs"
  unfolding successful_def
proof (rule filter_cong [OF refl])
  fix r assume "r \<in> set rs"
  with assms obtain b where "map_of r ''success'' = Some (PBool b)"
    by (auto simp: result_ok_def)
  then show "truthy (dict_get r ''success'' (PBool False)) =
             (map_of r ''success'' = Some (PBool True))"
    by (simp add: dict_get_def)
qed

lemma response_times_successful:
  assumes "\<forall>r\<in>set rs. result_ok r"
  shows "response_times (successful rs) = Inr (success_times rs)"
  using assms
proof (induction rs)
  case Nil
  then show ?case by (simp add: successful_def)
next
  case (Cons r rs)
  then have IH: "response_times (successful rs) = Inr (success_times rs)" by simp
  from Cons.prems obtain b where b: "map_of r ''success'' = Some (PBool b)"
    by (auto simp: result_ok_def)
  show ?case
  proof (cases b)
    case True
    with b Cons.prems obtain t where "map_of r ''response_time_ms'' = Some (PFloat t)"
      by (auto simp: result_ok_def)
    with b True IH show ?thesis
      by (simp add: successful_def dict_get_def dict_item_def)
  next
    case False
    with b IH show ?thesis
      by (simp add: successful_def dict_get_def)
  qed
qed

lemma length_successful:
  assumes "\<forall>r\<in>set rs. result_ok r"
  shows "length (successful rs) = length (success_times rs)"
  using assms
proof (induction rs)
  case Nil
  then show ?case by (simp add: successful_def)
next
  case (Cons r rs)
  then have IH: "length (successful rs) = length (success_times rs)" by simp
  from Cons.prems obtain b where b: "map_of r ''success'' = Some (PBool b)"
    by (auto simp: result_ok_def)
  show ?case
  proof (cases b)
    case True
    with b Cons.prems obtain t where "map_of r ''response_time_ms'' = Some (PFloat t)"
      by (auto simp: result_ok_def)
    with b True IH show ?thesis
      using IH by (simp add: successful_def dict_get_def)
  next
    case False
    with b IH show ?thesis
      by (simp add: successful_def dict_get_def)
  qed
qed

lemma py_min_Min: "ts \<noteq> [] \<Longrightarrow> py_min ts = Inr (Min (set ts))"
proof (cases ts)
  case Nil
  then show "ts \<noteq> [] \<Longrightarrow> ?thesis" by simp
next
  case (Cons x xs)
  have "(\<lambda>y m. if y < m then y else m) = (min :: real \<Rightarrow> real \<Rightarrow> real)"
    by (auto simp: fun_eq_iff min_def)
  then show ?thesis
    using Min.set_eq_fold [of x xs] by (simp add: Cons)
qed

lemma py_max_Max: "ts \<noteq> [] \<Longrightarrow> py_max ts = Inr (Max (set ts))"
proof (cases ts)
  case Nil
  then show "ts \<noteq> [] \<Longrightarrow> ?thesis" by simp
next
  case (Cons x xs)
  have "(\<lambda>y m. if y > m then y else m) = (max :: real \<Rightarrow> real \<Rightarrow> real)"
    by (auto simp: fun_eq_iff max_def)
  then show ?thesis
    using Max.set_eq_fold [of x xs] by (simp add: Cons)
qed

lemma stats_successful:
  assumes "\<forall>r\<in>set rs. result_ok r" and "success_times rs \<noteq> []"
  shows "stats (successful rs) =
           Inr (double_div (py_sum (success_times rs)) (real (length (success_times rs))),
                Min (set (success_times rs)), Max (set (success_times rs)))"
  using assms(2)
  by (simp add: stats_def response_times_successful [OF assms(1)]
        length_successful [OF assms(1)] py_div_def py_min_Min py_max_Max)





lemma health_check_raised:
  "subprocess_run w health_cmd = Inl e \<Longrightarrow> health_check w = ([], Inl e)"
  by (simp add: health_check_def)

lemma health_check_nonzero:
  "subprocess_run w health_cmd = Inr r \<Longrightarrow> returncode r \<noteq> 0 \<Longrightarrow>
   health_check w = ([Print L_health_failed], Inr False)"
  by (simp add: health_check_def)

lemma health_check_bad_json:
  "subprocess_run w health_cmd = Inr r \<Longrightarrow> returncode r = 0 \<Longrightarrow>
   json_loads w (stdout r) = Inl e \<Longrightarrow> health_check w = ([], Inl e)"
  by (simp add: health_check_def)

lemma health_check_no_write: "Write f rep \<notin> set (fst (health_check w))"
  by (auto simp: health_check_def split: sum.splits if_splits)

lemma main_raised:
  "health_check w = (ev1, Inl e) \<Longrightarrow>
   main w = ([Print L_banner, Print (L_rule CHR ''='' 50), Run health_cmd 10] @ ev1
               @ [Print (L_cannot_connect (str_exn e))], Inr None)"
  by (simp add: main_def)

lemma main_failed:
  "health_check w = (ev1, Inr False) \<Longrightarrow>
   main w = ([Print L_banner, Print (L_rule CHR ''='' 50), Run health_cmd 10] @ ev1, Inr None)"
  by (simp add: main_def)

lemma main_healthy:
  assumes "health_check w = (ev1, Inr True)"
  shows "main w =
     (let baseline_results = snd (run_scenarios w scenarios);
          ts = success_times baseline_results;
          ev = [Print L_banner, Print (L_rule CHR ''='' 50), Run health_cmd 10] @ ev1
                 @ fst (run_scenarios w scenarios)
      in if ts \<noteq> [] then
           (ev @ [Print L_summary_header, Print (L_rule CHR ''='' 30),
                  Print (L_total (length baseline_results)),
                  Print (L_successful (length ts)),
                  Print (L_avg (double_div (py_sum ts) (real (length ts)))),
                  Print (L_min (Min (set ts))),
                  Print (L_max (Max (set ts))),
                  Write ''baseline-results.json''
                    \<lparr>timestamp = time_dump w,
                     summary =
                       \<lparr>total_tests = length baseline_results,
                        successful_tests = length ts,
                        avg_response_time_ms = double_div (py_sum ts) (real (length ts)),
                        min_response_time_ms = Min (set ts),
                        max_response_time_ms = Max (set ts)\<rparr>,
                     detailed_results = baseline_results\<rparr>,
                  Print L_saved],
            Inr (Some baseline_results))
         else (ev @ [Print L_no_successful], Inr (Some baseline_results)))"
proof -
  let ?rs = "snd (run_scenarios w scenarios)"
  have ok: "\<forall>r\<in>set ?rs. result_ok r" by (simp add: run_scenarios_inv)
  have len: "length (successful ?rs) = length (success_times ?rs)"
    by (rule length_successful [OF ok])
  then have nonempty: "successful ?rs \<noteq> [] \<longleftrightarrow> success_times ?rs \<noteq> []"
    by (metis length_0_conv)
  show ?thesis
  proof (cases "success_times ?rs = []")
    case True
    then show ?thesis
      using nonempty assms by (simp add: main_def split_def Let_def)
  next
    case False
    then show ?thesis
      using nonempty assms len stats_successful [OF ok False]
      by (simp add: main_def split_def Let_def)
  qed
qed


lemma main_write:
  assumes "Write f rep \<in> set (fst (main w))"
  shows "success_times (snd (run_scenarios w scenarios)) \<noteq> [] \<and>
         f = ''baseline-results.json'' \<and>
         rep = \<lparr>timestamp = time_dump w,
                summary =
                  \<lparr>total_tests = length (snd (run_scenarios w scenarios)),
                   successful_tests = length (success_times (snd (run_scenarios w scenarios))),
                   avg_response_time_ms =
                     double_div (py_sum (success_times (snd (run_scenarios w scenarios))))
                       (real (length (success_times (snd (run_scenarios w scenarios))))),
                   min_response_time_ms =
                     Min (set (success_times (snd (run_scenarios w scenarios)))),
                   max_response_time_ms =
                     Max (set (success_times (snd (run_scenarios w scenarios))))\<rparr>,
                detailed_results = snd (run_scenarios w scenarios)\<rparr>"
proof -
  obtain ev1 res where hc: "health_check w = (ev1, res)"
    by (cases "health_check w") auto
  have nw1: "Write f rep \<notin> set ev1"
    using health_check_no_write [of f rep w] hc by simp
  have nw2: "Write f rep \<notin> set (fst (run_scenarios w scenarios))"
    by (rule run_scenarios_no_write)
  show ?thesis
  proof (cases res)
    case (Inl e)
    with hc have "fst (main w) =
        [Print L_banner, Print (L_rule CHR ''='' 50), Run health_cmd 10] @ ev1
          @ [Print (L_cannot_connect (str_exn e))]"
      by (simp add: main_raised)
    with assms nw1 show ?thesis by simp
  next
    case (Inr go)
    show ?thesis
    proof (cases go)
      case False
      with hc Inr have "fst (main w) =
          [Print L_banner, Print (L_rule CHR ''='' 50), Run health_cmd 10] @ ev1"
        by (simp add: main_failed)
      with assms nw1 show ?thesis by simp
    next
      case True
      with hc Inr have healthy: "health_check w = (ev1, Inr True)" by simp
      show ?thesis
      proof (cases "success_times (snd (run_scenarios w scenarios)) = []")
        case True
        with assms nw1 nw2 show ?thesis
          by (simp add: main_healthy [OF healthy] Let_def)
      next
        case False
        with assms nw1 nw2 show ?thesis
          by (simp add: main_healthy [OF healthy] Let_def)
      qed
    qed
  qed
qed

lemma main_snd:
  "snd (main w) =
     (if snd (health_check w) = Inr True then Inr (Some (snd (run_scenarios w scenarios)))
      else Inr None)"
proof -
  obtain ev1 res where hc: "health_check w = (ev1, res)"
    by (cases "health_check w") auto
  show ?thesis
  proof (cases res)
    case (Inl e)
    with hc show ?thesis by (simp add: main_raised)
  next
    case (Inr go)
    show ?thesis
    proof (cases go)
      case False
      with hc Inr show ?thesis by (simp add: main_failed)
    next
      case True
      with hc Inr have healthy: "health_check w = (ev1, Inr True)" by simp
      then show ?thesis by (simp add: main_healthy [OF healthy] Let_def)
    qed
  qed
qed

lemma success_times_none:
  assumes "\<forall>r\<in>set rs. map_of r ''success'' \<noteq> Some (PBool True)"
  shows "success_times rs = []"
  using assms
  by (induction rs) (auto split: option.splits pyval.splits bool.splits)


lemma success_times_filter:
  assumes "\<forall>r\<in>set rs. result_ok r"
  shows "length (success_times rs) =
           length (filter (\<lambda>r. map_of r ''success'' = Some (PBool True)) rs)"
  using length_successful [OF assms] successful_filter [OF assms] by simp

lemma re_search_none:
  assumes "lit \<noteq> []" and "occurrences lit s = 0"
  shows "re_search lit s = None"
  using assms(2)
proof (induction s)
  case Nil
  with assms(1) show ?case by (simp add: match_here_def)
next
  case (Cons c cs)
  then have "\<not> prefix lit (c # cs)" and "occurrences lit cs = 0"
    by (auto split: if_splits)
  with Cons.IH show ?case by (simp add: match_here_def)
qed

lemma has_attribute_iff:
  assumes "lit \<noteq> []"
  shows "has_attribute lit s \<longleftrightarrow> (\<exists>pre v post. s = pre @ lit @ v @ [dquote] @ post)"
proof (induction s)
  case Nil
  with assms show ?case by simp
next
  case (Cons c cs)
  show ?case
  proof
    assume "has_attribute lit (c # cs)"
    then consider (here) "prefix lit (c # cs)" "dquote \<in> set (drop (length lit) (c # cs))"
      | (later) "has_attribute lit cs"
      by auto
    then show "\<exists>pre v post. c # cs = pre @ lit @ v @ [dquote] @ post"
    proof cases
      case here
      from here(1) obtain rest where rest: "c # cs = lit @ rest"
        by (auto simp: prefix_def)
      with here(2) have "dquote \<in> set rest" by simp
      then obtain v post where "rest = v @ dquote # post"
        by (auto dest: split_list)
      with rest have "c # cs = [] @ lit @ v @ [dquote] @ post" by simp
      then show ?thesis by blast
    next
      case later
      with Cons.IH obtain pre v post where "cs = pre @ lit @ v @ [dquote] @ post"
        by blast
      then have "c # cs = (c # pre) @ lit @ v @ [dquote] @ post" by simp
      then show ?thesis by blast
    qed
  next
    assume "\<exists>pre v post. c # cs = pre @ lit @ v @ [dquote] @ post"
    then obtain pre v post where eq: "c # cs = pre @ lit @ v @ [dquote] @ post"
      by blast
    show "has_attribute lit (c # cs)"
    proof (cases pre)
      case Nil
      with eq have "prefix lit (c # cs)"
        and "dquote \<in> set (drop (length lit) (c # cs))"
        by simp_all
      then show ?thesis by simp
    next
      case (Cons a pre')
      with eq have "cs = pre' @ lit @ v @ [dquote] @ post" by simp
      with Cons.IH have "has_attribute lit cs" by blast
      then show ?thesis by simp
    qed
  qed
qed

lemma re_search_no_attribute:
  assumes "\<not> has_attribute lit s"
  shows "re_search lit s = None"
  using assms
proof (induction s)
  case Nil
  then show ?case by (simp add: match_here_def)
next
  case (Cons c cs)
  then show ?case by (auto simp: match_here_def Let_def)
qed

lemma timeouts_results:
  "snd (main world_timeouts) =
     Inr (Some
       [[(''scenario'', PStr ''Termite Emergency''), (''response_time_ms'', PInt 30000),
         (''success'', PBool False), (''timeout'', PBool True)],
        [(''scenario'', PStr ''Service Inquiry''), (''response_time_ms'', PInt 30000),
         (''success'', PBool False), (''timeout'', PBool True)],
        [(''scenario'', PStr ''Booking Request''), (''response_time_ms'', PInt 30000),
         (''success'', PBool False), (''timeout'', PBool True)],
        [(''scenario'', PStr ''Business Hours''), (''response_time_ms'', PInt 30000),
         (''success'', PBool False), (''timeout'', PBool True)]])"
proof -
  have "snd (health_check world_timeouts) = Inr True"
    by (simp add: health_check_def world_timeouts_def loads_example_def)
  moreover have one: "\<And>n s c. snd (test_scenario world_timeouts n s c) =
      [(''scenario'', PStr n), (''response_time_ms'', PInt 30000),
       (''success'', PBool False), (''timeout'', PBool True)]"
    by (simp add: test_scenario_def handle_exn_def world_timeouts_def gather_cmd_def
          health_cmd_def)
  ultimately show ?thesis
    unfolding main_snd run_scenarios_snd by (simp add: scenarios_def one)
qed


lemma length_results: "length (snd (run_scenarios w scenarios)) = 4"
  unfolding run_scenarios_snd by (simp add: scenarios_def)

lemma health_check_ok:
  "health_check world_ok =
     ([Print (L_server_status (JStr ''unknown'')), Print (L_database (JStr ''unknown'')),
       Print (L_redis (JStr ''unknown''))], Inr True)"
  by (simp add: health_check_def world_ok_def loads_example_def)

lemma run_scenarios_ok:
  "snd (run_scenarios world_ok scenarios) = detailed_results report_example"
proof -
  have play: "str_count body_example ''<Play>'' = 2"
    by (simp add: str_count_occurrences body_example_def)
  have say: "str_count body_example ''<Say>'' = 1"
    by (simp add: str_count_occurrences body_example_def)
  have gather: "re_search (''timeout='' @ [dquote]) body_example = None"
    by (rule re_search_none) (simp_all add: body_example_def dquote_def)
  have speech: "re_search (''speechTimeout='' @ [dquote]) body_example = None"
    by (rule re_search_none) (simp_all add: body_example_def dquote_def)
  have nonempty: "body_example \<noteq> []"
    by (simp add: body_example_def)
  have one: "snd (test_scenario world_ok n s c) =
      [(''scenario'', PStr n),
       (''response_time_ms'',
          PFloat (double_mul (double_sub (time_after world_ok (gather_cmd c s)) 0) 1000)),
       (''success'', PBool True), (''tts_instances'', PInt 2),
       (''fallback_instances'', PInt 1), (''gather_timeout'', PNone),
       (''speech_timeout'', PNone)]" for n s c
  proof -
    have run: "subprocess_run world_ok (gather_cmd c s)
                 = Inr \<lparr>returncode = 0, stdout = body_example\<rparr>"
      by (simp add: world_ok_def gather_cmd_def health_cmd_def)
    have before: "time_before world_ok (gather_cmd c s) = 0"
      by (simp add: world_ok_def)
    show ?thesis
      using test_scenario_nonempty [OF run, of n] nonempty
      by (simp add: play say gather [simplified] speech [simplified] before)
  qed
  show ?thesis
    unfolding run_scenarios_snd
    by (simp add: scenarios_def one report_example_def result_example_def)
       (simp add: world_ok_def gather_cmd_def latency_100ms latency_200ms latency_300ms
          latency_400ms)
qed

lemma success_times_example:
  "success_times (detailed_results report_example) = [100, 200, 300, 400]"
  by (simp add: report_example_def result_example_def)

lemma main_ok_write:
  "Write ''baseline-results.json'' report_example \<in> set (fst (main world_ok))"
proof -
  have "time_dump world_ok = 60" by (simp add: world_ok_def)
  then show ?thesis
    by (simp add: main_healthy [OF health_check_ok] Let_def run_scenarios_ok
          success_times_example average_example)
       (simp add: report_example_def)
qed







lemma test_scenario_no_timeout_attr:
  assumes "subprocess_run w (gather_cmd call_id speech_text) = Inr result"
    and "stdout result \<noteq> []"
    and "\<not> has_attribute (''timeout='' @ [dquote]) (stdout result)"
  shows "map_of (snd (test_scenario w scenario_name speech_text call_id)) ''gather_timeout''
           = Some PNone"
proof -
  have "re_search (''timeout='' @ [dquote]) (stdout result) = None"
    by (rule re_search_no_attribute [OF assms(3)])
  then show ?thesis
    by (simp add: test_scenario_nonempty [OF assms(1,2)])
qed

section \<open>Properties of the scenario runner\<close>

text \<open>
  Claim C1. The claim: whenever the request process exits with status zero, the result
  has \<open>success\<close> true and carries the two marker counts. The runner does so for every
  non-empty output. With status zero and an empty output, the return statement reads the
  local \<open>gather_timeout\<close>, which only the branch for a non-empty output assigns; the
  UnboundLocalError is caught by the general handler, and the result is the error
  dictionary: \<open>success\<close> is false and there are no counts. The entries for the counts
  guard against the empty output (\<^verbatim>\<open>tts_count if result.stdout else 0\<close>); the entries
  for the two timeouts do not.
\<close>

theorem empty_body_marked_failed:
  "subprocess_run world_empty
       (gather_cmd ''baseline-test-1'' ''Hi I have a termite emergency in Mosman'')
     = Inr \<lparr>returncode = 0, stdout = []\<rparr>
   \<and> snd (test_scenario world_empty ''Termite Emergency''
            ''Hi I have a termite emergency in Mosman'' ''baseline-test-1'') =
         [(''scenario'', PStr ''Termite Emergency''), (''success'', PBool False),
          (''error'', PStr (unbound_msg ''gather_timeout''))]"
proof -
  have run: "subprocess_run world_empty
       (gather_cmd ''baseline-test-1'' ''Hi I have a termite emergency in Mosman'')
     = Inr \<lparr>returncode = 0, stdout = []\<rparr>"
    by (simp add: world_empty_def gather_cmd_def health_cmd_def)
  from test_scenario_empty [OF run, of "''Termite Emergency''"] run
  show ?thesis by simp
qed

text \<open>
  Claim C3. The claim: a response body with no \<^verbatim>\<open>timeout="..."\<close> attribute gives a
  result whose \<open>gather_timeout\<close> is \<^verbatim>\<open>None\<close>. For a non-empty body this holds
  (\<open>test_scenario_no_timeout_attr\<close>). The empty body has no such attribute either, and
  there the result is the error dictionary of the general handler: it has no
  \<open>gather_timeout\<close> entry at all, and its \<open>error\<close> entry is the text of the
  UnboundLocalError for \<open>gather_timeout\<close>.
\<close>

theorem empty_body_lacks_gather_timeout:
  "subprocess_run world_empty
       (gather_cmd ''baseline-test-2'' ''Do you service Cremorne what services do you offer'')
     = Inr \<lparr>returncode = 0, stdout = []\<rparr>
   \<and> \<not> has_attribute (''timeout='' @ [dquote]) []
   \<and> map_of (snd (test_scenario world_empty ''Service Inquiry''
            ''Do you service Cremorne what services do you offer'' ''baseline-test-2''))
        ''gather_timeout'' = None
   \<and> map_of (snd (test_scenario world_empty ''Service Inquiry''
            ''Do you service Cremorne what services do you offer'' ''baseline-test-2''))
        ''error'' = Some (PStr (unbound_msg ''gather_timeout''))"
proof -
  have run: "subprocess_run world_empty
       (gather_cmd ''baseline-test-2'' ''Do you service Cremorne what services do you offer'')
     = Inr \<lparr>returncode = 0, stdout = []\<rparr>"
    by (simp add: world_empty_def gather_cmd_def health_cmd_def)
  from test_scenario_empty [OF run, of "''Service Inquiry''"] run
  show ?thesis by simp
qed

text \<open>
  Claim C4. When the request process exceeds its 30-second budget
  (\<^verbatim>\<open>subprocess.run\<close> raises TimeoutExpired), the returned result is exactly the
  dictionary with the scenario's label, \<open>response_time_ms\<close> the fixed integer 30000
  whatever the clock reads, \<open>success\<close> false and \<open>timeout\<close> true.
\<close>

theorem test_scenario_timeout:
  assumes "subprocess_run w (gather_cmd call_id speech_text) = Inl e"
    and "exn_kind e = TimeoutExpired"
  shows "snd (test_scenario w scenario_name speech_text call_id) =
           [(''scenario'', PStr scenario_name), (''response_time_ms'', PInt 30000),
            (''success'', PBool False), (''timeout'', PBool True)]"
  using assms by (simp add: test_scenario_def handle_exn_def)

theorem test_scenario_timeout_witness:
  "subprocess_run world_timeouts
       (gather_cmd ''baseline-test-1'' ''Hi I have a termite emergency in Mosman'')
     = Inl (Exn TimeoutExpired ''timed out after 30 seconds'')
   \<and> exn_kind (Exn TimeoutExpired ''timed out after 30 seconds'') = TimeoutExpired
   \<and> snd (test_scenario world_timeouts ''Termite Emergency''
            ''Hi I have a termite emergency in Mosman'' ''baseline-test-1'') =
         [(''scenario'', PStr ''Termite Emergency''), (''response_time_ms'', PInt 30000),
          (''success'', PBool False), (''timeout'', PBool True)]"
proof -
  have run: "subprocess_run world_timeouts
       (gather_cmd ''baseline-test-1'' ''Hi I have a termite emergency in Mosman'')
     = Inl (Exn TimeoutExpired ''timed out after 30 seconds'')"
    by (simp add: world_timeouts_def gather_cmd_def health_cmd_def)
  have kind: "exn_kind (Exn TimeoutExpired ''timed out after 30 seconds'') = TimeoutExpired"
    by simp
  from test_scenario_timeout [OF run kind, of "''Termite Emergency''"] run kind
  show ?thesis by simp
qed

text \<open>
  Claim C6. When the response body contains exactly two occurrences of \<^verbatim>\<open><Play>\<close> and
  exactly one of \<^verbatim>\<open><Say>\<close>, the result has \<open>tts_instances\<close> 2 and
  \<open>fallback_instances\<close> 1. Occurrences are the positions at which the marker starts;
  \<^verbatim>\<open>str.count\<close> counts non-overlapping ones, and the two agree because neither marker
  can overlap itself.
\<close>

theorem test_scenario_counts:
  assumes "subprocess_run w (gather_cmd call_id speech_text) = Inr result"
    and "occurrences ''<Play>'' (stdout result) = 2"
    and "occurrences ''<Say>'' (stdout result) = 1"
  shows "map_of (snd (test_scenario w scenario_name speech_text call_id)) ''tts_instances''
           = Some (PInt 2)
       \<and> map_of (snd (test_scenario w scenario_name speech_text call_id))
           ''fallback_instances'' = Some (PInt 1)"
proof -
  from assms(2) have nonempty: "stdout result \<noteq> []" by auto
  have play: "str_count (stdout result) ''<Play>'' = 2"
    using assms(2) by (simp add: str_count_occurrences)
  have say: "str_count (stdout result) ''<Say>'' = 1"
    using assms(3) by (simp add: str_count_occurrences)
  show ?thesis
    by (simp add: test_scenario_nonempty [OF assms(1) nonempty] play say)
qed

theorem test_scenario_counts_witness:
  "subprocess_run world_ok
       (gather_cmd ''baseline-test-4'' ''What are your business hours'')
     = Inr \<lparr>returncode = 0, stdout = body_example\<rparr>
   \<and> occurrences ''<Play>'' body_example = 2
   \<and> occurrences ''<Say>'' body_example = 1
   \<and> map_of (snd (test_scenario world_ok ''Business Hours''
                     ''What are your business hours'' ''baseline-test-4''))
        ''tts_instances'' = Some (PInt 2)
   \<and> map_of (snd (test_scenario world_ok ''Business Hours''
                     ''What are your business hours'' ''baseline-test-4''))
        ''fallback_instances'' = Some (PInt 1)"
proof -
  have run: "subprocess_run world_ok
       (gather_cmd ''baseline-test-4'' ''What are your business hours'')
     = Inr \<lparr>returncode = 0, stdout = body_example\<rparr>"
    by (simp add: world_ok_def gather_cmd_def health_cmd_def)
  have play: "occurrences ''<Play>'' (stdout \<lparr>returncode = 0, stdout = body_example\<rparr>) = 2"
    by (simp add: body_example_def)
  have say: "occurrences ''<Say>'' (stdout \<lparr>returncode = 0, stdout = body_example\<rparr>) = 1"
    by (simp add: body_example_def)
  from test_scenario_counts [OF run play say, of "''Business Hours''"] run play say
  show ?thesis by simp
qed

text \<open>
  Claim C9. A result of the runner whose \<open>success\<close> entry is true has a float
  \<open>response_time_ms\<close> entry and integer \<open>tts_instances\<close> and \<open>fallback_instances\<close>
  entries; hence the aggregator's pass over the response times of the successful results
  raises nothing, and no exception leaves the driver.
\<close>

theorem successful_result_fields:
  "(map_of (snd (test_scenario w scenario_name speech_text call_id)) ''success''
        = Some (PBool True) \<longrightarrow>
      (\<exists>t. map_of (snd (test_scenario w scenario_name speech_text call_id))
              ''response_time_ms'' = Some (PFloat t)) \<and>
      (\<exists>k. map_of (snd (test_scenario w scenario_name speech_text call_id))
              ''tts_instances'' = Some (PInt k)) \<and>
      (\<exists>k. map_of (snd (test_scenario w scenario_name speech_text call_id))
              ''fallback_instances'' = Some (PInt k)))
   \<and> (\<exists>ts. response_times (successful (snd (run_scenarios w scenarios))) = Inr ts)
   \<and> (\<forall>e. snd (main w) \<noteq> Inl e)"
proof -
  have fields: "map_of (snd (test_scenario w scenario_name speech_text call_id)) ''success''
        = Some (PBool True) \<longrightarrow>
      (\<exists>t. map_of (snd (test_scenario w scenario_name speech_text call_id))
              ''response_time_ms'' = Some (PFloat t)) \<and>
      (\<exists>k. map_of (snd (test_scenario w scenario_name speech_text call_id))
              ''tts_instances'' = Some (PInt k)) \<and>
      (\<exists>k. map_of (snd (test_scenario w scenario_name speech_text call_id))
              ''fallback_instances'' = Some (PInt k))"
    by (cases rule: test_scenario_cases [of w call_id speech_text scenario_name]) simp_all
  have "\<forall>r\<in>set (snd (run_scenarios w scenarios)). result_ok r"
    by (simp add: run_scenarios_inv)
  then have times: "\<exists>ts. response_times (successful (snd (run_scenarios w scenarios))) = Inr ts"
    by (simp add: response_times_successful)
  have "\<forall>e. snd (main w) \<noteq> Inl e"
    by (simp add: main_snd)
  with fields times show ?thesis by blast
qed

theorem successful_result_fields_witness:
  "map_of (snd (test_scenario world_ok ''Termite Emergency''
                  ''Hi I have a termite emergency in Mosman'' ''baseline-test-1''))
       ''success'' = Some (PBool True)
   \<and> (\<exists>t. map_of (snd (test_scenario world_ok ''Termite Emergency''
                  ''Hi I have a termite emergency in Mosman'' ''baseline-test-1''))
              ''response_time_ms'' = Some (PFloat t))
   \<and> (\<exists>k. map_of (snd (test_scenario world_ok ''Termite Emergency''
                  ''Hi I have a termite emergency in Mosman'' ''baseline-test-1''))
              ''tts_instances'' = Some (PInt k))
   \<and> (\<exists>k. map_of (snd (test_scenario world_ok ''Termite Emergency''
                  ''Hi I have a termite emergency in Mosman'' ''baseline-test-1''))
              ''fallback_instances'' = Some (PInt k))
   \<and> (\<exists>ts. response_times (successful (snd (run_scenarios world_ok scenarios))) = Inr ts)
   \<and> (\<forall>e. snd (main world_ok) \<noteq> Inl e)"
proof -
  have "snd (test_scenario world_ok ''Termite Emergency''
               ''Hi I have a termite emergency in Mosman'' ''baseline-test-1'')
          = hd (snd (run_scenarios world_ok scenarios))"
    unfolding run_scenarios_snd by (simp add: scenarios_def)
  then have success: "map_of (snd (test_scenario world_ok ''Termite Emergency''
                  ''Hi I have a termite emergency in Mosman'' ''baseline-test-1''))
       ''success'' = Some (PBool True)"
    by (simp add: run_scenarios_ok report_example_def result_example_def)
  from successful_result_fields [of world_ok "''Termite Emergency''"
      "''Hi I have a termite emergency in Mosman''" "''baseline-test-1''"] success
  show ?thesis by blast
qed

section \<open>Properties of the driver\<close>

text \<open>
  Claim C2, as stated: when the health check exits with status zero and its body is not
  valid JSON, the parse exception escapes uncaught and crashes the process. It does not:
  \<^verbatim>\<open>json.loads\<close> is called inside the \<^verbatim>\<open>try\<close> block, whose handler catches every
  \<^verbatim>\<open>Exception\<close>. On the body \<^verbatim>\<open><html>\<close> the run prints the message of the handler and
  returns normally.
\<close>

theorem main_bad_json_returns:
  "subprocess_run world_bad_json health_cmd = Inr \<lparr>returncode = 0, stdout = ''<html>''\<rparr>
   \<and> json_loads world_bad_json ''<html>''
       = Inl (Exn JSONDecodeError ''Expecting value: line 1 column 1 (char 0)'')
   \<and> main world_bad_json =
       ([Print L_banner, Print (L_rule CHR ''='' 50), Run health_cmd 10,
         Print (L_cannot_connect ''Expecting value: line 1 column 1 (char 0)'')],
        Inr None)"
  by (simp add: main_def health_check_def world_bad_json_def loads_example_def)

text \<open>
  Claim C2, amended. When the health check exits with status zero and \<^verbatim>\<open>json.loads\<close>
  raises on its body, the handler of the health check catches the exception: the run
  prints that it cannot connect to the server, with the text of the exception, and
  returns normally. No scenario is run and no result file is written: the only call of
  \<^verbatim>\<open>subprocess.run\<close> is the health check's, and there is no write.
\<close>

theorem main_bad_json_caught:
  assumes "subprocess_run w health_cmd = Inr health_result"
    and "returncode health_result = 0"
    and "json_loads w (stdout health_result) = Inl e"
  shows "main w =
           ([Print L_banner, Print (L_rule CHR ''='' 50), Run health_cmd 10,
             Print (L_cannot_connect (str_exn e))],
            Inr None)"
  using main_raised [OF health_check_bad_json [OF assms]] by simp

theorem main_bad_json_caught_witness:
  "subprocess_run world_bad_json health_cmd = Inr \<lparr>returncode = 0, stdout = ''<html>''\<rparr>
   \<and> returncode \<lparr>returncode = 0, stdout = ''<html>''\<rparr> = 0
   \<and> json_loads world_bad_json (stdout \<lparr>returncode = 0, stdout = ''<html>''\<rparr>)
       = Inl (Exn JSONDecodeError ''Expecting value: line 1 column 1 (char 0)'')
   \<and> fst (main world_bad_json) =
       [Print L_banner, Print (L_rule CHR ''='' 50), Run health_cmd 10,
        Print (L_cannot_connect ''Expecting value: line 1 column 1 (char 0)'')]
   \<and> snd (main world_bad_json) = Inr None"
proof -
  have run: "subprocess_run world_bad_json health_cmd
               = Inr \<lparr>returncode = 0, stdout = ''<html>''\<rparr>"
    by (simp add: world_bad_json_def)
  have zero: "returncode \<lparr>returncode = 0, stdout = ''<html>''\<rparr> = 0"
    by simp
  have loads: "json_loads world_bad_json (stdout \<lparr>returncode = 0, stdout = ''<html>''\<rparr>)
       = Inl (Exn JSONDecodeError ''Expecting value: line 1 column 1 (char 0)'')"
    by (simp add: world_bad_json_def loads_example_def)
  from main_bad_json_caught [OF run zero loads] run zero loads
  show ?thesis by simp
qed

text \<open>
  Claim C8. When the health probe fails, by a non-zero exit status or by an exception of
  \<^verbatim>\<open>subprocess.run\<close>, the run stops after the health check: its only call of
  \<^verbatim>\<open>subprocess.run\<close> is the probe, it prints one failure message, writes no file and
  returns.
\<close>

theorem main_health_failure:
  assumes "(\<exists>e. subprocess_run w health_cmd = Inl e) \<or>
           (\<exists>r. subprocess_run w health_cmd = Inr r \<and> returncode r \<noteq> 0)"
  shows "main w =
           ([Print L_banner, Print (L_rule CHR ''='' 50), Run health_cmd 10,
             Print (case subprocess_run w health_cmd of
                      Inl e \<Rightarrow> L_cannot_connect (str_exn e)
                    | Inr r \<Rightarrow> L_health_failed)],
            Inr None)"
  using assms
proof
  assume "\<exists>e. subprocess_run w health_cmd = Inl e"
  then obtain e where e: "subprocess_run w health_cmd = Inl e" ..
  show ?thesis
    using main_raised [OF health_check_raised [OF e]] by (simp add: e)
next
  assume "\<exists>r. subprocess_run w health_cmd = Inr r \<and> returncode r \<noteq> 0"
  then obtain r where r: "subprocess_run w health_cmd = Inr r" "returncode r \<noteq> 0"
    by blast
  show ?thesis
    using main_failed [OF health_check_nonzero [OF r]] by (simp add: r)
qed

theorem main_health_failure_witness:
  "subprocess_run world_down health_cmd = Inr \<lparr>returncode = 7, stdout = []\<rparr>
   \<and> returncode \<lparr>returncode = 7, stdout = []\<rparr> \<noteq> 0
   \<and> main world_down =
       ([Print L_banner, Print (L_rule CHR ''='' 50), Run health_cmd 10,
         Print L_health_failed],
        Inr None)"
proof -
  have run: "subprocess_run world_down health_cmd = Inr \<lparr>returncode = 7, stdout = []\<rparr>"
    by (simp add: world_down_def)
  have nonzero: "returncode \<lparr>returncode = 7, stdout = []\<rparr> \<noteq> 0"
    by simp
  from run nonzero
  have "(\<exists>e. subprocess_run world_down health_cmd = Inl e) \<or>
        (\<exists>r. subprocess_run world_down health_cmd = Inr r \<and> returncode r \<noteq> 0)"
    by simp
  from main_health_failure [OF this] run nonzero show ?thesis by simp
qed

text \<open>
  Claim C7. When the run returns its results and none of them has \<open>success\<close> true, no
  file is written, and the last thing the run does is print that there are no successful
  tests. An instance is the run in which all four requests time out.
\<close>

theorem main_no_success_no_file:
  assumes "snd (main w) = Inr (Some rs)"
    and "\<forall>r\<in>set rs. map_of r ''success'' \<noteq> Some (PBool True)"
  shows "(\<forall>f rep. Write f rep \<notin> set (fst (main w))) \<and>
         last (fst (main w)) = Print L_no_successful"
proof -
  from assms(1) have go: "snd (health_check w) = Inr True"
    and rs: "rs = snd (run_scenarios w scenarios)"
    by (auto simp: main_snd split: if_splits)
  from go obtain ev1 where healthy: "health_check w = (ev1, Inr True)"
    by (cases "health_check w") auto
  have none: "success_times (snd (run_scenarios w scenarios)) = []"
    using success_times_none [OF assms(2)] rs by simp
  have "\<forall>f rep. Write f rep \<notin> set (fst (main w))"
    using main_write [of _ _ w] none by blast
  moreover have "last (fst (main w)) = Print L_no_successful"
    using none by (simp add: main_healthy [OF healthy] Let_def)
  ultimately show ?thesis by simp
qed

theorem main_no_success_no_file_witness:
  "snd (main world_timeouts) =
     Inr (Some
       [[(''scenario'', PStr ''Termite Emergency''), (''response_time_ms'', PInt 30000),
         (''success'', PBool False), (''timeout'', PBool True)],
        [(''scenario'', PStr ''Service Inquiry''), (''response_time_ms'', PInt 30000),
         (''success'', PBool False), (''timeout'', PBool True)],
        [(''scenario'', PStr ''Booking Request''), (''response_time_ms'', PInt 30000),
         (''success'', PBool False), (''timeout'', PBool True)],
        [(''scenario'', PStr ''Business Hours''), (''response_time_ms'', PInt 30000),
         (''success'', PBool False), (''timeout'', PBool True)]])
   \<and> (\<forall>f rep. Write f rep \<notin> set (fst (main world_timeouts)))
   \<and> last (fst (main world_timeouts)) = Print L_no_successful"
proof -
  note run = timeouts_results
  have none: "\<forall>r\<in>set
       [[(''scenario'', PStr ''Termite Emergency''), (''response_time_ms'', PInt 30000),
         (''success'', PBool False), (''timeout'', PBool True)],
        [(''scenario'', PStr ''Service Inquiry''), (''response_time_ms'', PInt 30000),
         (''success'', PBool False), (''timeout'', PBool True)],
        [(''scenario'', PStr ''Booking Request''), (''response_time_ms'', PInt 30000),
         (''success'', PBool False), (''timeout'', PBool True)],
        [(''scenario'', PStr ''Business Hours''), (''response_time_ms'', PInt 30000),
         (''success'', PBool False), (''timeout'', PBool True)]].
      map_of r ''success'' \<noteq> Some (PBool True)"
    by simp
  from main_no_success_no_file [OF run none] run show ?thesis by blast
qed

text \<open>
  Claim C5. If the four results are successful with response times 100, 200, 300 and 400
  milliseconds, the written summary has \<open>total_tests\<close> 4, \<open>successful_tests\<close> 4,
  average 250, minimum 100 and maximum 400. In general, whenever a report is written, its
  average, minimum and maximum are those of the response times of exactly the results
  whose \<open>success\<close> flag is true, and \<open>successful_tests\<close> is their number; the average is
  their sum divided by their number, as Python computes them on floats.
\<close>

theorem summary_over_successful:
  "(snd (health_check w) = Inr True \<and>
    map (\<lambda>r. (map_of r ''success'', map_of r ''response_time_ms''))
        (snd (run_scenarios w scenarios)) =
      [(Some (PBool True), Some (PFloat 100)), (Some (PBool True), Some (PFloat 200)),
       (Some (PBool True), Some (PFloat 300)), (Some (PBool True), Some (PFloat 400))]
    \<longrightarrow> (\<exists>rep. Write ''baseline-results.json'' rep \<in> set (fst (main w)) \<and>
              summary rep =
                \<lparr>total_tests = 4, successful_tests = 4, avg_response_time_ms = 250,
                 min_response_time_ms = 100, max_response_time_ms = 400\<rparr>))
   \<and> (\<forall>f rep. Write f rep \<in> set (fst (main w)) \<longrightarrow>
        success_times (detailed_results rep) \<noteq> [] \<and>
        length (success_times (detailed_results rep)) =
          length (filter (\<lambda>r. map_of r ''success'' = Some (PBool True))
                    (detailed_results rep)) \<and>
        successful_tests (summary rep) = length (success_times (detailed_results rep)) \<and>
        avg_response_time_ms (summary rep) =
          double_div (py_sum (success_times (detailed_results rep)))
            (real (length (success_times (detailed_results rep)))) \<and>
        min_response_time_ms (summary rep) = Min (set (success_times (detailed_results rep))) \<and>
        max_response_time_ms (summary rep) = Max (set (success_times (detailed_results rep))))"
proof (intro conjI impI allI)
  assume h: "snd (health_check w) = Inr True \<and>
    map (\<lambda>r. (map_of r ''success'', map_of r ''response_time_ms''))
        (snd (run_scenarios w scenarios)) =
      [(Some (PBool True), Some (PFloat 100)), (Some (PBool True), Some (PFloat 200)),
       (Some (PBool True), Some (PFloat 300)), (Some (PBool True), Some (PFloat 400))]"
  then obtain ev1 where healthy: "health_check w = (ev1, Inr True)"
    by (cases "health_check w") auto
  from h obtain r1 r2 r3 r4 where rs: "snd (run_scenarios w scenarios) = [r1, r2, r3, r4]"
    and r1: "map_of r1 ''success'' = Some (PBool True)"
            "map_of r1 ''response_time_ms'' = Some (PFloat 100)"
    and r2: "map_of r2 ''success'' = Some (PBool True)"
            "map_of r2 ''response_time_ms'' = Some (PFloat 200)"
    and r3: "map_of r3 ''success'' = Some (PBool True)"
            "map_of r3 ''response_time_ms'' = Some (PFloat 300)"
    and r4: "map_of r4 ''success'' = Some (PBool True)"
            "map_of r4 ''response_time_ms'' = Some (PFloat 400)"
    by (auto simp: map_eq_Cons_conv)
  have ts: "success_times (snd (run_scenarios w scenarios)) = [100, 200, 300, 400]"
    by (simp add: rs r1 r2 r3 r4)
  let ?rep = "\<lparr>timestamp = time_dump w,
                summary =
                  \<lparr>total_tests = 4, successful_tests = 4, avg_response_time_ms = 250,
                   min_response_time_ms = 100, max_response_time_ms = 400\<rparr>,
                detailed_results = snd (run_scenarios w scenarios)\<rparr>"
  have "Write ''baseline-results.json'' ?rep \<in> set (fst (main w))"
    by (simp add: main_healthy [OF healthy] Let_def ts length_results average_example)
  moreover have "summary ?rep =
                \<lparr>total_tests = 4, successful_tests = 4, avg_response_time_ms = 250,
                 min_response_time_ms = 100, max_response_time_ms = 400\<rparr>"
    by simp
  ultimately show "\<exists>rep. Write ''baseline-results.json'' rep \<in> set (fst (main w)) \<and>
              summary rep =
                \<lparr>total_tests = 4, successful_tests = 4, avg_response_time_ms = 250,
                 min_response_time_ms = 100, max_response_time_ms = 400\<rparr>"
    by blast
next
  fix f rep
  assume written: "Write f rep \<in> set (fst (main w))"
  let ?rs = "snd (run_scenarios w scenarios)"
  from main_write [OF written]
  have nonempty: "success_times ?rs \<noteq> []"
    and succ: "successful_tests (summary rep) = length (success_times ?rs)"
    and avg: "avg_response_time_ms (summary rep) =
                double_div (py_sum (success_times ?rs)) (real (length (success_times ?rs)))"
    and mn: "min_response_time_ms (summary rep) = Min (set (success_times ?rs))"
    and mx: "max_response_time_ms (summary rep) = Max (set (success_times ?rs))"
    and detailed: "detailed_results rep = ?rs"
    by simp_all
  have ok: "\<forall>r\<in>set ?rs. result_ok r" by (simp add: run_scenarios_inv)
  show "success_times (detailed_results rep) \<noteq> []"
    using nonempty by (simp add: detailed)
  show "length (success_times (detailed_results rep)) =
          length (filter (\<lambda>r. map_of r ''success'' = Some (PBool True))
                    (detailed_results rep))"
    unfolding detailed by (rule success_times_filter [OF ok])
  show "successful_tests (summary rep) = length (success_times (detailed_results rep))"
    by (simp add: detailed succ)
  show "avg_response_time_ms (summary rep) =
          double_div (py_sum (success_times (detailed_results rep)))
            (real (length (success_times (detailed_results rep))))"
    by (simp add: detailed avg)
  show "min_response_time_ms (summary rep) = Min (set (success_times (detailed_results rep)))"
    by (simp add: detailed mn)
  show "max_response_time_ms (summary rep) = Max (set (success_times (detailed_results rep)))"
    by (simp add: detailed mx)
qed


theorem summary_over_successful_witness:
  "snd (health_check world_ok) = Inr True
   \<and> map (\<lambda>r. (map_of r ''success'', map_of r ''response_time_ms''))
         (snd (run_scenarios world_ok scenarios)) =
       [(Some (PBool True), Some (PFloat 100)), (Some (PBool True), Some (PFloat 200)),
        (Some (PBool True), Some (PFloat 300)), (Some (PBool True), Some (PFloat 400))]
   \<and> (\<exists>rep. Write ''baseline-results.json'' rep \<in> set (fst (main world_ok)) \<and>
          summary rep =
            \<lparr>total_tests = 4, successful_tests = 4, avg_response_time_ms = 250,
             min_response_time_ms = 100, max_response_time_ms = 400\<rparr>)
   \<and> Write ''baseline-results.json'' report_example \<in> set (fst (main world_ok))
   \<and> success_times (detailed_results report_example) = [100, 200, 300, 400]
   \<and> successful_tests (summary report_example)
       = length (success_times (detailed_results report_example))
   \<and> avg_response_time_ms (summary report_example) =
       double_div (py_sum (success_times (detailed_results report_example)))
         (real (length (success_times (detailed_results report_example))))
   \<and> min_response_time_ms (summary report_example)
       = Min (set (success_times (detailed_results report_example)))
   \<and> max_response_time_ms (summary report_example)
       = Max (set (success_times (detailed_results report_example)))"
proof -
  have healthy: "snd (health_check world_ok) = Inr True"
    by (simp add: health_check_ok)
  have times: "map (\<lambda>r. (map_of r ''success'', map_of r ''response_time_ms''))
         (snd (run_scenarios world_ok scenarios)) =
       [(Some (PBool True), Some (PFloat 100)), (Some (PBool True), Some (PFloat 200)),
        (Some (PBool True), Some (PFloat 300)), (Some (PBool True), Some (PFloat 400))]"
    by (simp add: run_scenarios_ok report_example_def result_example_def)
  note general = summary_over_successful [of world_ok]
  from general healthy times
  have first: "\<exists>rep. Write ''baseline-results.json'' rep \<in> set (fst (main world_ok)) \<and>
          summary rep =
            \<lparr>total_tests = 4, successful_tests = 4, avg_response_time_ms = 250,
             min_response_time_ms = 100, max_response_time_ms = 400\<rparr>"
    by blast
  from general main_ok_write
  have second: "successful_tests (summary report_example)
       = length (success_times (detailed_results report_example))
   \<and> avg_response_time_ms (summary report_example) =
       double_div (py_sum (success_times (detailed_results report_example)))
         (real (length (success_times (detailed_results report_example))))
   \<and> min_response_time_ms (summary report_example)
       = Min (set (success_times (detailed_results report_example)))
   \<and> max_response_time_ms (summary report_example)
       = Max (set (success_times (detailed_results report_example)))"
    by blast
  from healthy times first second main_ok_write success_times_example
  show ?thesis by blast
qed




end
